theory Spec2Isabelle
  imports Main "HOL-Library.Word"
begin

section \<open>Solidity values and failures\<close>

text \<open>
  The contract \<open>contracts/FlareFTSOPriceOracle.sol\<close> is compiled with Solidity 0.8.19:
  \<open>uint256\<close> arithmetic is checked (overflow, underflow and division by zero abort the
  call with a panic), an array access out of range aborts with a panic, and a failed
  \<open>require\<close> aborts with its message. An aborted call leaves the storage as it was.
  Gas is not modelled.

  \<open>uint256\<close> and \<open>int256\<close> are 256-bit words (an \<open>int256\<close> is read with \<open>sint\<close>), an
  \<open>address\<close> a 160-bit word. Array lengths and indices are natural numbers: the loops
  below only count up to the length of an array that exists, so \<open>i++\<close> and \<open>i + 1\<close>
  cannot overflow; the subtraction \<open>history.length - 1\<close> is checked as in the source.
\<close>

type_synonym uint256 = "256 word"
type_synonym int256 = "256 word"
type_synonym address = "160 word"

datatype error =
    Revert string
  | Panic nat
  | CallFailed

text \<open>
  \<open>Revert msg\<close>: a \<open>require\<close> failed with \<open>msg\<close>. \<open>Panic code\<close>: a check the compiler
  inserts failed (0x11 arithmetic overflow or underflow, 0x12 division by zero, 0x31
  \<open>pop\<close> on an empty array, 0x32 index out of range). \<open>CallFailed\<close>: a call to another
  contract reverted.

  The failures the specification names are the following messages of the source.
\<close>

definition NotFound :: error where
  "NotFound = Revert ''No price data available''"

definition InsufficientHistory :: error where
  "InsufficientHistory = Revert ''Insufficient price history''"

definition Unauthorized :: error where
  "Unauthorized = Revert ''Ownable: caller is not the owner''"

definition InvalidReference :: error where
  "InvalidReference = Revert ''Invalid address''"

definition bind_result :: "error + 'a \<Rightarrow> ('a \<Rightarrow> error + 'b) \<Rightarrow> error + 'b" where
  "bind_result m f = (case m of Inl err \<Rightarrow> Inl err | Inr x \<Rightarrow> f x)"

definition checked_sub :: "uint256 \<Rightarrow> uint256 \<Rightarrow> error + uint256" where
  "checked_sub a b = (if b \<le> a then Inr (a - b) else Inl (Panic 0x11))"

definition checked_mul :: "uint256 \<Rightarrow> uint256 \<Rightarrow> error + uint256" where
  "checked_mul a b = (if unat a * unat b < 2 ^ 256 then Inr (a * b) else Inl (Panic 0x11))"

definition checked_div :: "uint256 \<Rightarrow> uint256 \<Rightarrow> error + uint256" where
  "checked_div a b = (if b = 0 then Inl (Panic 0x12) else Inr (a div b))"

definition length_minus :: "nat \<Rightarrow> nat \<Rightarrow> error + nat" where
  "length_minus n k = (if k \<le> n then Inr (n - k) else Inl (Panic 0x11))"

definition index :: "'a list \<Rightarrow> nat \<Rightarrow> error + 'a" where
  "index xs i = (if i < length xs then Inr (xs ! i) else Inl (Panic 0x32))"

definition assign :: "'a list \<Rightarrow> nat \<Rightarrow> 'a \<Rightarrow> error + 'a list" where
  "assign xs i v = (if i < length xs then Inr (xs[i := v]) else Inl (Panic 0x32))"

definition pop :: "'a list \<Rightarrow> error + 'a list" where
  "pop xs = (if xs = [] then Inl (Panic 0x31) else Inr (butlast xs))"

definition push :: "'a list \<Rightarrow> 'a \<Rightarrow> 'a list" where
  "push xs x = xs @ [x]"

definition hours :: uint256 where
  "hours = 3600"


section \<open>The contract's storage and its environment\<close>

record PriceData =
  price :: uint256
  timestamp :: uint256
  epochId :: uint256

datatype event = PriceUpdated string uint256 uint256 uint256

datatype guard = NOT_ENTERED | ENTERED

text \<open>
  The storage of the contract. \<open>owner\<close> and \<open>status\<close> are the storage of the two
  contracts it inherits from, OpenZeppelin's \<open>Ownable\<close> and \<open>ReentrancyGuard\<close>. The two
  mappings are total functions, as in Solidity: a key never written holds the default
  value (the empty array, 0), and two different strings are two different keys.
  \<open>events\<close> is the log of emitted events.
\<close>

record FlareFTSOPriceOracle =
  owner :: address
  status :: guard
  ftsoRegistry :: address
  ftsoManager :: address
  priceHistory :: "string \<Rightarrow> PriceData list"
  lastUpdateTime :: "string \<Rightarrow> uint256"
  events :: "event list"

text \<open>
  What a call sees of the world: the caller, the block's time, and the answers of the
  FTSO registry and FTSO manager contracts at a given address (\<open>None\<close> when the call
  to them reverts). Both are read-only (\<open>view\<close>) calls.
\<close>

record env =
  msg_sender :: address
  block_timestamp :: uint256
  getCurrentPrice :: "address \<Rightarrow> string \<Rightarrow> (uint256 \<times> uint256) option"
  getCurrentEpochId :: "address \<Rightarrow> uint256 option"

definition PRICE_VALIDITY_PERIOD :: uint256 where
  "PRICE_VALIDITY_PERIOD = 24 * hours"

definition MAX_HISTORY_LENGTH :: nat where
  "MAX_HISTORY_LENGTH = 24"


section \<open>Inherited modifiers\<close>

text \<open>
  Modelled from the spec: the modifier \<open>onlyOwner\<close> of OpenZeppelin's \<open>Ownable\<close>, which
  the contract imports and whose source is not in the repository. The specification
  says that the owner is the only identity permitted to repoint the feed references
  and that every other caller fails with Unauthorized; the check comes before the body
  of the function. The message is the one of \<open>Ownable\<close>.
\<close>

definition onlyOwner :: "env \<Rightarrow> FlareFTSOPriceOracle \<Rightarrow> (error + 'a) \<Rightarrow> error + 'a" where
  "onlyOwner e s body =
     (if owner s = msg_sender e then body
      else Inl (Revert ''Ownable: caller is not the owner''))"

text \<open>
  Modelled from the spec: the modifier \<open>nonReentrant\<close> of OpenZeppelin's
  \<open>ReentrancyGuard\<close>, whose source is not in the repository either. The specification
  says that no two updates interleave: a call that finds the guard entered aborts, any
  other call runs its body with the guard entered and leaves it not entered.
\<close>

definition nonReentrant ::
  "(FlareFTSOPriceOracle \<Rightarrow> error + FlareFTSOPriceOracle) \<Rightarrow> FlareFTSOPriceOracle
     \<Rightarrow> error + FlareFTSOPriceOracle" where
  "nonReentrant body s =
     (if status s = ENTERED then Inl (Revert ''ReentrancyGuard: reentrant call'')
      else bind_result (body (s\<lparr>status := ENTERED\<rparr>))
             (\<lambda>s'. Inr (s'\<lparr>status := NOT_ENTERED\<rparr>)))"


section \<open>The contract's functions\<close>

text \<open>
  The storage a successful deployment leaves: \<open>Ownable\<close>'s constructor makes the
  deployer the owner, the guard is not entered, the mappings are empty.
\<close>

definition deployed :: "address \<Rightarrow> address \<Rightarrow> address \<Rightarrow> FlareFTSOPriceOracle" where
  "deployed deployer registry manager =
     \<lparr>owner = deployer, status = NOT_ENTERED,
      ftsoRegistry = registry, ftsoManager = manager,
      priceHistory = (\<lambda>_. []), lastUpdateTime = (\<lambda>_. 0), events = []\<rparr>"

definition constructor :: "env \<Rightarrow> address \<Rightarrow> address \<Rightarrow> error + FlareFTSOPriceOracle" where
  "constructor e registry manager =
     (if registry = 0 then Inl (Revert ''Invalid FTSO Registry address'')
      else if manager = 0 then Inl (Revert ''Invalid FTSO Manager address'')
      else Inr (deployed (msg_sender e) registry manager))"

definition getCurrentTokenPrice ::
  "env \<Rightarrow> FlareFTSOPriceOracle \<Rightarrow> string \<Rightarrow> error + (uint256 \<times> uint256)" where
  "getCurrentTokenPrice e s symbol =
     (case getCurrentPrice e (ftsoRegistry s) symbol of
        None \<Rightarrow> Inl CallFailed
      | Some r \<Rightarrow> Inr r)"

text \<open>
  The loop \<open>for (uint i = 0; i < history.length - 1; i++) history[i] = history[i + 1];\<close>
  of \<open>updatePriceData\<close>, from the counter \<open>i\<close> on.
\<close>

function shift_left :: "nat \<Rightarrow> PriceData list \<Rightarrow> error + PriceData list" where
  "shift_left i history =
     (case length_minus (length history) 1 of
        Inl err \<Rightarrow> Inl err
      | Inr n \<Rightarrow>
          if i < n then
            (case index history (i + 1) of
               Inl err \<Rightarrow> Inl err
             | Inr v \<Rightarrow>
                 (case assign history i v of
                    Inl err \<Rightarrow> Inl err
                  | Inr history' \<Rightarrow> shift_left (i + 1) history'))
          else Inr history)"
  by pat_completeness auto
termination
  by (relation "measure (\<lambda>(i, history). length history - i)")
     (auto simp: length_minus_def index_def assign_def split: if_splits)

declare shift_left.simps [simp del]

text \<open>The block \<open>if (history.length >= MAX_HISTORY_LENGTH) { ... history.pop(); }\<close>.\<close>

definition evict_oldest :: "PriceData list \<Rightarrow> error + PriceData list" where
  "evict_oldest history =
     (if length history \<ge> MAX_HISTORY_LENGTH
      then bind_result (shift_left 0 history) pop
      else Inr history)"

definition updatePriceData_body ::
  "env \<Rightarrow> string \<Rightarrow> FlareFTSOPriceOracle \<Rightarrow> error + FlareFTSOPriceOracle" where
  "updatePriceData_body e symbol s =
     bind_result (getCurrentTokenPrice e s symbol) (\<lambda>(p, t).
     bind_result (case getCurrentEpochId e (ftsoManager s) of
                    None \<Rightarrow> Inl CallFailed | Some ep \<Rightarrow> Inr ep) (\<lambda>currentEpochId.
     bind_result (evict_oldest (priceHistory s symbol)) (\<lambda>history.
       Inr (s\<lparr>priceHistory := (priceHistory s)
                 (symbol := push history
                    \<lparr>price = p, timestamp = t, epochId = currentEpochId\<rparr>),
              lastUpdateTime := (lastUpdateTime s)(symbol := block_timestamp e),
              events := events s @ [PriceUpdated symbol p t currentEpochId]\<rparr>))))"

definition updatePriceData ::
  "env \<Rightarrow> FlareFTSOPriceOracle \<Rightarrow> string \<Rightarrow> error + FlareFTSOPriceOracle" where
  "updatePriceData e s symbol = nonReentrant (updatePriceData_body e symbol) s"

text \<open>
  The loop of \<open>getPriceHistory\<close>, from the counter \<open>i\<close> on, over the three memory arrays.
\<close>

function copy_history ::
  "nat \<Rightarrow> nat \<Rightarrow> PriceData list \<Rightarrow> uint256 list \<times> uint256 list \<times> uint256 list
     \<Rightarrow> error + (uint256 list \<times> uint256 list \<times> uint256 list)" where
  "copy_history i len history (prices, timestamps, epochIds) =
     (if i < len then
        (case index history i of
           Inl err \<Rightarrow> Inl err
         | Inr d \<Rightarrow>
             (case assign prices i (price d) of
                Inl err \<Rightarrow> Inl err
              | Inr prices' \<Rightarrow>
                  (case assign timestamps i (timestamp d) of
                     Inl err \<Rightarrow> Inl err
                   | Inr timestamps' \<Rightarrow>
                       (case assign epochIds i (epochId d) of
                          Inl err \<Rightarrow> Inl err
                        | Inr epochIds' \<Rightarrow>
                            copy_history (i + 1) len history
                              (prices', timestamps', epochIds')))))
      else Inr (prices, timestamps, epochIds))"
  by pat_completeness auto
termination
  by (relation "measure (\<lambda>(i, len, history, arrays). len - i)") auto

declare copy_history.simps [simp del]

definition getPriceHistory ::
  "FlareFTSOPriceOracle \<Rightarrow> string
     \<Rightarrow> error + (uint256 list \<times> uint256 list \<times> uint256 list)" where
  "getPriceHistory s symbol =
     (let history = priceHistory s symbol;
          len = length history
      in copy_history 0 len history (replicate len 0, replicate len 0, replicate len 0))"

definition getLatestPriceData ::
  "FlareFTSOPriceOracle \<Rightarrow> string \<Rightarrow> error + (uint256 \<times> uint256 \<times> uint256)" where
  "getLatestPriceData s symbol =
     (if \<not> length (priceHistory s symbol) > 0 then Inl (Revert ''No price data available'')
      else
        let history = priceHistory s symbol in
        bind_result (length_minus (length history) 1) (\<lambda>k.
        bind_result (index history k) (\<lambda>latest.
          Inr (price latest, timestamp latest, epochId latest))))"

definition needsUpdate :: "env \<Rightarrow> FlareFTSOPriceOracle \<Rightarrow> string \<Rightarrow> error + bool" where
  "needsUpdate e s symbol =
     bind_result (checked_sub (block_timestamp e) (lastUpdateTime s symbol))
       (\<lambda>elapsed. Inr (elapsed \<ge> 1 * hours))"

definition get24hPriceChange :: "FlareFTSOPriceOracle \<Rightarrow> string \<Rightarrow> error + int256" where
  "get24hPriceChange s symbol =
     (let history = priceHistory s symbol in
      if \<not> length history > 1 then Inl (Revert ''Insufficient price history'')
      else
        bind_result (length_minus (length history) 1) (\<lambda>k.
        bind_result (index history k) (\<lambda>newest.
        bind_result (index history 0) (\<lambda>oldest.
          let currentPrice = price newest;
              oldestPrice = price oldest
          in if oldestPrice = 0 then Inr 0
             else
               bind_result (checked_mul currentPrice 10000) (\<lambda>scaled.
               bind_result (checked_div scaled oldestPrice) (\<lambda>ratio.
               bind_result (checked_sub ratio 10000) (\<lambda>change.
                 Inr change)))))))"

definition updateFtsoRegistry ::
  "env \<Rightarrow> FlareFTSOPriceOracle \<Rightarrow> address \<Rightarrow> error + FlareFTSOPriceOracle" where
  "updateFtsoRegistry e s newRegistry =
     onlyOwner e s
       (if newRegistry = 0 then Inl (Revert ''Invalid address'')
        else Inr (s\<lparr>ftsoRegistry := newRegistry\<rparr>))"

definition updateFtsoManager ::
  "env \<Rightarrow> FlareFTSOPriceOracle \<Rightarrow> address \<Rightarrow> error + FlareFTSOPriceOracle" where
  "updateFtsoManager e s newManager =
     onlyOwner e s
       (if newManager = 0 then Inl (Revert ''Invalid address'')
        else Inr (s\<lparr>ftsoManager := newManager\<rparr>))"


section \<open>Transactions\<close>

text \<open>
  A transaction is a call of one of the state-changing functions of the contract in an
  environment. A call that aborts leaves the storage unchanged; \<open>run\<close> executes a
  list of transactions. The functions inherited from \<open>Ownable\<close> (transfer and
  renunciation of ownership) are not in the repository's source and are not among the
  calls; they write \<open>owner\<close> only.
\<close>

datatype call =
    UpdatePriceData string
  | UpdateFtsoRegistry address
  | UpdateFtsoManager address

fun exec_call :: "env \<Rightarrow> FlareFTSOPriceOracle \<Rightarrow> call \<Rightarrow> error + FlareFTSOPriceOracle" where
  "exec_call e s (UpdatePriceData symbol) = updatePriceData e s symbol"
| "exec_call e s (UpdateFtsoRegistry a) = updateFtsoRegistry e s a"
| "exec_call e s (UpdateFtsoManager a) = updateFtsoManager e s a"

definition apply_tx :: "FlareFTSOPriceOracle \<Rightarrow> env \<times> call \<Rightarrow> FlareFTSOPriceOracle" where
  "apply_tx s tx = (case exec_call (fst tx) s (snd tx) of Inl err \<Rightarrow> s | Inr s' \<Rightarrow> s')"

definition run :: "FlareFTSOPriceOracle \<Rightarrow> (env \<times> call) list \<Rightarrow> FlareFTSOPriceOracle" where
  "run s txs = foldl apply_tx s txs"

text \<open>
  The storage a successful \<open>updatePriceData\<close> leaves, given the quote \<open>(p, t)\<close> and the
  epoch \<open>ep\<close> the feed returned: the closed form that \<open>updatePriceData_returns\<close> below
  proves of the code.
\<close>

definition inserted ::
  "env \<Rightarrow> FlareFTSOPriceOracle \<Rightarrow> string \<Rightarrow> uint256 \<Rightarrow> uint256 \<Rightarrow> uint256
     \<Rightarrow> FlareFTSOPriceOracle" where
  "inserted e s symbol p t ep =
     s\<lparr>priceHistory := (priceHistory s)
          (symbol := (if length (priceHistory s symbol) \<ge> MAX_HISTORY_LENGTH
                      then tl (priceHistory s symbol) else priceHistory s symbol)
                     @ [\<lparr>price = p, timestamp = t, epochId = ep\<rparr>]),
       lastUpdateTime := (lastUpdateTime s)(symbol := block_timestamp e),
       events := events s @ [PriceUpdated symbol p t ep]\<rparr>"


section \<open>Concrete runs\<close>

text \<open>
  Environments and transactions for concrete runs: in \<open>feed_env sender now p\<close> the caller
  is \<open>sender\<close>, the block's time is \<open>now\<close>, the registry quotes the price \<open>p\<close> with
  time \<open>now\<close> for every symbol and the manager reports epoch 7. \<open>updates symbol ps\<close>
  is one \<open>updatePriceData(symbol)\<close> transaction per price of \<open>ps\<close>, an hour apart.
\<close>

definition feed_env :: "address \<Rightarrow> uint256 \<Rightarrow> uint256 \<Rightarrow> env" where
  "feed_env sender now p =
     \<lparr>msg_sender = sender, block_timestamp = now,
      getCurrentPrice = (\<lambda>registry symbol. Some (p, now)),
      getCurrentEpochId = (\<lambda>manager. Some 7)\<rparr>"

definition updates :: "string \<Rightarrow> uint256 list \<Rightarrow> (env \<times> call) list" where
  "updates symbol ps =
     map (\<lambda>p. (feed_env 9 (1700000000 + 3600 * p) p, UpdatePriceData symbol)) ps"


section \<open>The eviction loop\<close>

lemma shift_left_eq:
  assumes "i < length history"
  shows "shift_left i history = Inr (take i history @ drop (Suc i) history @ [last history])"
  using assms
proof (induction "length history - Suc i" arbitrary: i history)
  case 0
  then have i: "i = length history - 1" and ne: "history \<noteq> []" by auto
  have "\<not> i < length history - 1" using i by simp
  moreover have "Suc 0 \<le> length history" using 0 by simp
  ultimately have "shift_left i history = Inr history"
    by (subst shift_left.simps) (simp add: length_minus_def)
  moreover have "take i history @ drop (Suc i) history @ [last history] = history"
  proof -
    have "take i history = butlast history" by (simp add: i butlast_conv_take)
    then show ?thesis using ne i by simp
  qed
  ultimately show ?case by simp
next
  case (Suc k)
  then have lt: "Suc i < length history" by simp
  define h' where "h' = history[i := history ! Suc i]"
  have "i < length history - 1" "1 \<le> length history" "i < length history"
    using lt by arith+
  then have step: "shift_left i history = shift_left (Suc i) h'"
    using lt by (subst shift_left.simps) (simp add: length_minus_def index_def assign_def h'_def)
  have "shift_left (Suc i) h' = Inr (take (Suc i) h' @ drop (Suc (Suc i)) h' @ [last h'])"
    using Suc.hyps(2) lt by (intro Suc.hyps(1)) (simp_all add: h'_def)
  moreover have "take (Suc i) h' = take i history @ [history ! Suc i]"
    using lt by (simp add: h'_def take_Suc_conv_app_nth)
  moreover have "drop (Suc (Suc i)) h' = drop (Suc (Suc i)) history"
    by (simp add: h'_def)
  moreover have "last h' = last history"
  proof -
    have "history \<noteq> []" "i \<noteq> length history - 1" using lt by auto
    then show ?thesis by (simp add: h'_def last_list_update)
  qed
  moreover have "drop (Suc i) history = history ! Suc i # drop (Suc (Suc i)) history"
    using lt by (simp add: Cons_nth_drop_Suc)
  ultimately show ?case using step by simp
qed

lemma shift_left_0: "history \<noteq> [] \<Longrightarrow> shift_left 0 history = Inr (tl history @ [last history])"
  by (simp add: shift_left_eq drop_Suc)

lemma shift_left_empty: "shift_left i [] = Inl (Panic 0x11)"
  by (subst shift_left.simps) (simp add: length_minus_def)

lemma evict_oldest_eq:
  "evict_oldest history = Inr (if length history \<ge> MAX_HISTORY_LENGTH then tl history else history)"
proof (cases "length history \<ge> MAX_HISTORY_LENGTH")
  case True
  then have "history \<noteq> []" by (auto simp: MAX_HISTORY_LENGTH_def)
  then show ?thesis using True
    by (simp add: evict_oldest_def shift_left_0 bind_result_def pop_def)
next
  case False
  then show ?thesis by (simp add: evict_oldest_def)
qed

text \<open>
  Within an update the length never exceeds the bound either: the loop keeps the
  length, and the eviction leaves fewer than 24 samples before \<open>push\<close> adds one.
\<close>

lemma shift_left_length:
  assumes "shift_left i history = Inr history'"
  shows "length history' = length history"
proof (cases "i < length history")
  case True
  then show ?thesis using assms by (auto simp: shift_left_eq)
next
  case False
  then have "\<not> i < length history - 1" by simp
  then show ?thesis using assms
    by (subst (asm) shift_left.simps) (auto simp: length_minus_def split: if_splits)
qed

lemma evict_oldest_length:
  assumes "length history \<le> MAX_HISTORY_LENGTH"
  shows "\<exists>history'. evict_oldest history = Inr history' \<and> length history' < MAX_HISTORY_LENGTH"
  using assms by (auto simp: evict_oldest_eq MAX_HISTORY_LENGTH_def)


section \<open>What an update does\<close>

lemma updatePriceData_returns:
  assumes "status s = NOT_ENTERED"
    and "getCurrentPrice e (ftsoRegistry s) symbol = Some (p, t)"
    and "getCurrentEpochId e (ftsoManager s) = Some ep"
  shows "updatePriceData e s symbol = Inr (inserted e s symbol p t ep)"
  using assms
  by (simp add: updatePriceData_def nonReentrant_def updatePriceData_body_def
      getCurrentTokenPrice_def bind_result_def evict_oldest_eq push_def inserted_def)

lemma updatePriceData_Inr:
  "updatePriceData e s symbol = Inr s' \<longleftrightarrow>
     status s = NOT_ENTERED \<and>
     (\<exists>p t ep. getCurrentPrice e (ftsoRegistry s) symbol = Some (p, t) \<and>
        getCurrentEpochId e (ftsoManager s) = Some ep \<and> s' = inserted e s symbol p t ep)"
  by (cases "status s"; cases "getCurrentPrice e (ftsoRegistry s) symbol";
      cases "getCurrentEpochId e (ftsoManager s)")
     (auto simp add: updatePriceData_def nonReentrant_def updatePriceData_body_def
      getCurrentTokenPrice_def bind_result_def evict_oldest_eq push_def inserted_def)


section \<open>Transactions and runs\<close>

lemma run_Nil: "run s [] = s" by (simp add: run_def)
lemma run_Cons: "run s (tx # txs) = run (apply_tx s tx) txs" by (simp add: run_def)
lemma run_snoc: "run s (txs @ [tx]) = apply_tx (run s txs) tx" by (simp add: run_def)

lemma priceHistory_inserted:
  "priceHistory (inserted e s symbol p t ep) symbol' =
     (if symbol' = symbol
      then (if length (priceHistory s symbol) \<ge> MAX_HISTORY_LENGTH
            then tl (priceHistory s symbol) else priceHistory s symbol)
           @ [\<lparr>price = p, timestamp = t, epochId = ep\<rparr>]
      else priceHistory s symbol')"
  by (simp add: inserted_def)

lemma lastUpdateTime_inserted:
  "lastUpdateTime (inserted e s symbol p t ep) symbol' =
     (if symbol' = symbol then block_timestamp e else lastUpdateTime s symbol')"
  by (simp add: inserted_def)

lemma inserted_fields:
  "owner (inserted e s symbol p t ep) = owner s"
  "status (inserted e s symbol p t ep) = status s"
  "ftsoRegistry (inserted e s symbol p t ep) = ftsoRegistry s"
  "ftsoManager (inserted e s symbol p t ep) = ftsoManager s"
  by (simp_all add: inserted_def)

lemma apply_tx_update:
  "apply_tx s (e, UpdatePriceData symbol) =
     (if status s = NOT_ENTERED then
        (case getCurrentPrice e (ftsoRegistry s) symbol of
           None \<Rightarrow> s
         | Some (p, t) \<Rightarrow>
             (case getCurrentEpochId e (ftsoManager s) of
                None \<Rightarrow> s
              | Some ep \<Rightarrow> inserted e s symbol p t ep))
      else s)"
  by (cases "status s"; cases "getCurrentPrice e (ftsoRegistry s) symbol";
      cases "getCurrentEpochId e (ftsoManager s)")
     (auto simp add: apply_tx_def updatePriceData_def nonReentrant_def updatePriceData_body_def
      getCurrentTokenPrice_def bind_result_def evict_oldest_eq push_def inserted_def)

lemma apply_tx_registry:
  "apply_tx s (e, UpdateFtsoRegistry a) =
     (if owner s = msg_sender e \<and> a \<noteq> 0 then s\<lparr>ftsoRegistry := a\<rparr> else s)"
  by (simp add: apply_tx_def updateFtsoRegistry_def onlyOwner_def)

lemma apply_tx_manager:
  "apply_tx s (e, UpdateFtsoManager a) =
     (if owner s = msg_sender e \<and> a \<noteq> 0 then s\<lparr>ftsoManager := a\<rparr> else s)"
  by (simp add: apply_tx_def updateFtsoManager_def onlyOwner_def)

lemma apply_tx_length:
  assumes "length (priceHistory s symbol) \<le> MAX_HISTORY_LENGTH"
  shows "length (priceHistory (apply_tx s tx) symbol) \<le> MAX_HISTORY_LENGTH"
proof (cases tx)
  case (Pair e c)
  show ?thesis
  proof (cases c)
    case (UpdatePriceData sym)
    then show ?thesis using assms Pair
      by (auto simp: apply_tx_update priceHistory_inserted MAX_HISTORY_LENGTH_def
          split: option.splits)
  next
    case (UpdateFtsoRegistry a)
    then show ?thesis using assms Pair by (simp add: apply_tx_registry)
  next
    case (UpdateFtsoManager a)
    then show ?thesis using assms Pair by (simp add: apply_tx_manager)
  qed
qed

lemma run_length:
  "length (priceHistory s symbol) \<le> MAX_HISTORY_LENGTH \<Longrightarrow>
   length (priceHistory (run s txs) symbol) \<le> MAX_HISTORY_LENGTH"
  by (induction txs arbitrary: s) (simp_all add: run_Nil run_Cons apply_tx_length)


lemma apply_tx_status:
  assumes "status s = NOT_ENTERED"
  shows "status (apply_tx s tx) = NOT_ENTERED"
proof (cases tx)
  case (Pair e c)
  then show ?thesis using assms
    by (cases c)
       (auto simp: apply_tx_update apply_tx_registry apply_tx_manager inserted_fields
         split: option.splits)
qed

lemma run_status:
  "status s = NOT_ENTERED \<Longrightarrow> status (run s txs) = NOT_ENTERED"
  by (induction txs arbitrary: s) (simp_all add: run_Nil run_Cons apply_tx_status)

lemma deployed_status: "status (deployed deployer registry manager) = NOT_ENTERED"
  by (simp add: deployed_def)

section \<open>The read-only functions\<close>

lemma copy_history_eq:
  assumes "i \<le> length history"
    and "length ps = length history" and "length ts = length history"
    and "length es = length history"
  shows "copy_history i (length history) history (ps, ts, es) =
           Inr (take i ps @ map price (drop i history),
                take i ts @ map timestamp (drop i history),
                take i es @ map epochId (drop i history))"
  using assms
proof (induction "length history - i" arbitrary: i ps ts es)
  case 0
  then have "i = length history" by simp
  then show ?case using 0 by (subst copy_history.simps) simp
next
  case (Suc k)
  then have lt: "i < length history" by simp
  define d where "d = history ! i"
  have step: "copy_history i (length history) history (ps, ts, es) =
      copy_history (Suc i) (length history) history
        (ps[i := price d], ts[i := timestamp d], es[i := epochId d])"
    using lt Suc.prems by (subst copy_history.simps) (simp add: index_def assign_def d_def)
  have "copy_history (Suc i) (length history) history
        (ps[i := price d], ts[i := timestamp d], es[i := epochId d]) =
      Inr (take (Suc i) (ps[i := price d]) @ map price (drop (Suc i) history),
           take (Suc i) (ts[i := timestamp d]) @ map timestamp (drop (Suc i) history),
           take (Suc i) (es[i := epochId d]) @ map epochId (drop (Suc i) history))"
    using Suc.hyps(2) lt Suc.prems by (intro Suc.hyps(1)) simp_all
  moreover have "drop i history = d # drop (Suc i) history"
    using lt by (simp add: d_def Cons_nth_drop_Suc)
  moreover have "take (Suc i) (ps[i := price d]) = take i ps @ [price d]"
    "take (Suc i) (ts[i := timestamp d]) = take i ts @ [timestamp d]"
    "take (Suc i) (es[i := epochId d]) = take i es @ [epochId d]"
    using lt Suc.prems by (simp_all add: take_Suc_conv_app_nth)
  ultimately show ?case using step by simp
qed

lemma getPriceHistory_eq:
  "getPriceHistory s symbol =
     Inr (map price (priceHistory s symbol), map timestamp (priceHistory s symbol),
          map epochId (priceHistory s symbol))"
  by (simp add: getPriceHistory_def Let_def copy_history_eq)

lemma getLatestPriceData_eq:
  "getLatestPriceData s symbol =
     (if priceHistory s symbol = [] then Inl NotFound
      else Inr (price (last (priceHistory s symbol)), timestamp (last (priceHistory s symbol)),
                epochId (last (priceHistory s symbol))))"
  by (cases "priceHistory s symbol = []")
     (simp_all add: getLatestPriceData_def NotFound_def Let_def bind_result_def
       length_minus_def index_def last_conv_nth Suc_leI)

lemma get24hPriceChange_unfold:
  assumes "1 < length (priceHistory s symbol)"
  shows "get24hPriceChange s symbol =
     (if price (hd (priceHistory s symbol)) = 0 then Inr 0
      else bind_result (checked_mul (price (last (priceHistory s symbol))) 10000) (\<lambda>scaled.
           bind_result (checked_div scaled (price (hd (priceHistory s symbol)))) (\<lambda>ratio.
           checked_sub ratio 10000)))"
proof -
  have ne: "priceHistory s symbol \<noteq> []" and le: "Suc 0 \<le> length (priceHistory s symbol)"
    using assms by auto
  have "bind_result m Inr = m" for m :: "error + uint256"
    by (cases m) (simp_all add: bind_result_def)
  then show ?thesis using assms ne le
    by (simp add: get24hPriceChange_def Let_def length_minus_def index_def
        last_conv_nth hd_conv_nth bind_result_def [of "Inr _"])
qed

lemma get24hPriceChange_eq:
  "get24hPriceChange s symbol =
     (let history = priceHistory s symbol;
          newest = price (last history); oldest = price (hd history)
      in if length history < 2 then Inl InsufficientHistory
         else if oldest = 0 then Inr 0
         else if \<not> unat newest * 10000 < 2 ^ 256 then Inl (Panic 0x11)
         else if newest * 10000 div oldest < 10000 then Inl (Panic 0x11)
         else Inr (newest * 10000 div oldest - 10000))"
proof (cases "length (priceHistory s symbol) < 2")
  case True
  then have "\<not> 1 < length (priceHistory s symbol)" by simp
  then show ?thesis using True
    by (simp add: get24hPriceChange_def InsufficientHistory_def Let_def)
next
  case False
  then have gt: "1 < length (priceHistory s symbol)" by simp
  show ?thesis
    unfolding get24hPriceChange_unfold [OF gt] Let_def
    using False
    by (auto simp add: bind_result_def checked_mul_def checked_div_def checked_sub_def)
qed


lemma needsUpdate_eq:
  "needsUpdate e s symbol =
     (if lastUpdateTime s symbol \<le> block_timestamp e
      then Inr (3600 \<le> uint (block_timestamp e) - uint (lastUpdateTime s symbol))
      else Inl (Panic 0x11))"
proof (cases "lastUpdateTime s symbol \<le> block_timestamp e")
  case True
  then have "uint (block_timestamp e - lastUpdateTime s symbol) =
      uint (block_timestamp e) - uint (lastUpdateTime s symbol)"
    by (simp add: uint_sub_lem [symmetric] word_le_def)
  moreover have "(3600 \<le> block_timestamp e - lastUpdateTime s symbol) =
      (3600 \<le> uint (block_timestamp e - lastUpdateTime s symbol))"
    by (simp add: word_le_def)
  ultimately show ?thesis using True
    by (simp add: needsUpdate_def checked_sub_def bind_result_def hours_def)
next
  case False
  then show ?thesis
    by (simp add: needsUpdate_def checked_sub_def bind_result_def)
qed

lemma needsUpdate_true_iff:
  "needsUpdate e s symbol = Inr True \<longleftrightarrow>
     3600 \<le> uint (block_timestamp e) - uint (lastUpdateTime s symbol)"
proof (cases "lastUpdateTime s symbol \<le> block_timestamp e")
  case True
  then show ?thesis by (simp add: needsUpdate_eq)
next
  case False
  then have "uint (block_timestamp e) < uint (lastUpdateTime s symbol)"
    by (simp add: word_le_def)
  then show ?thesis using False by (simp add: needsUpdate_eq)
qed

lemma apply_tx_lastUpdateTime:
  assumes "snd tx \<noteq> UpdatePriceData symbol"
  shows "lastUpdateTime (apply_tx s tx) symbol = lastUpdateTime s symbol"
proof (cases tx)
  case (Pair e c)
  show ?thesis
  proof (cases c)
    case (UpdatePriceData sym)
    then have "sym \<noteq> symbol" using assms Pair by simp
    then show ?thesis using Pair UpdatePriceData
      by (auto simp: apply_tx_update lastUpdateTime_inserted split: option.splits)
  next
    case (UpdateFtsoRegistry a)
    then show ?thesis using Pair by (simp add: apply_tx_registry)
  next
    case (UpdateFtsoManager a)
    then show ?thesis using Pair by (simp add: apply_tx_manager)
  qed
qed

lemma run_lastUpdateTime:
  "\<forall>tx\<in>set txs. snd tx \<noteq> UpdatePriceData symbol \<Longrightarrow>
   lastUpdateTime (run s txs) symbol = lastUpdateTime s symbol"
  by (induction txs arbitrary: s) (simp_all add: run_Nil run_Cons apply_tx_lastUpdateTime)

text \<open>
  The subtraction in \<open>needsUpdate\<close> cannot underflow when block times do not go back:
  the last update time is the time of an earlier block.
\<close>

lemma apply_tx_lastUpdateTime_le:
  assumes "lastUpdateTime s symbol \<le> now" and "block_timestamp (fst tx) \<le> now"
  shows "lastUpdateTime (apply_tx s tx) symbol \<le> now"
proof (cases tx)
  case (Pair e c)
  then show ?thesis using assms
    by (cases c)
       (auto simp: apply_tx_update apply_tx_registry apply_tx_manager lastUpdateTime_inserted
         split: option.splits)
qed

lemma run_lastUpdateTime_le:
  "lastUpdateTime s symbol \<le> now \<Longrightarrow> \<forall>tx\<in>set txs. block_timestamp (fst tx) \<le> now \<Longrightarrow>
   lastUpdateTime (run s txs) symbol \<le> now"
  by (induction txs arbitrary: s) (simp_all add: run_Nil run_Cons apply_tx_lastUpdateTime_le)

lemma needsUpdate_returns_in_run:
  assumes "\<forall>tx\<in>set txs. block_timestamp (fst tx) \<le> block_timestamp e"
  shows "\<exists>due. needsUpdate e (run (deployed deployer registry manager) txs) symbol = Inr due"
proof -
  have "lastUpdateTime (deployed deployer registry manager) symbol \<le> block_timestamp e"
    by (simp add: deployed_def)
  then have "lastUpdateTime (run (deployed deployer registry manager) txs) symbol
      \<le> block_timestamp e"
    using assms by (rule run_lastUpdateTime_le)
  then show ?thesis by (simp add: needsUpdate_eq)
qed

text \<open>
  A symbol's history is empty exactly as long as no update of the symbol has succeeded:
  a successful update leaves a sample, and no transaction empties a history. While it
  is empty, the last update time is still 0.
\<close>

lemma apply_tx_never_inserted:
  assumes "priceHistory s symbol = [] \<longrightarrow> lastUpdateTime s symbol = 0"
  shows "priceHistory (apply_tx s tx) symbol = [] \<longrightarrow> lastUpdateTime (apply_tx s tx) symbol = 0"
proof (cases tx)
  case (Pair e c)
  then show ?thesis using assms
    by (cases c)
       (auto simp: apply_tx_update apply_tx_registry apply_tx_manager priceHistory_inserted
         lastUpdateTime_inserted split: option.splits if_splits)
qed

lemma run_never_inserted:
  "priceHistory s symbol = [] \<longrightarrow> lastUpdateTime s symbol = 0 \<Longrightarrow>
   priceHistory (run s txs) symbol = [] \<longrightarrow> lastUpdateTime (run s txs) symbol = 0"
proof (induction txs arbitrary: s)
  case Nil
  then show ?case by (simp add: run_Nil)
next
  case (Cons tx txs)
  show ?case
    unfolding run_Cons by (rule Cons.IH) (rule apply_tx_never_inserted [OF Cons.prems])
qed

lemma apply_tx_history_stays:
  assumes "priceHistory s symbol \<noteq> []"
  shows "priceHistory (apply_tx s tx) symbol \<noteq> []"
proof (cases tx)
  case (Pair e c)
  then show ?thesis using assms
    by (cases c)
       (auto simp: apply_tx_update apply_tx_registry apply_tx_manager priceHistory_inserted
         split: option.splits if_splits)
qed

lemma run_history_stays:
  "priceHistory s symbol \<noteq> [] \<Longrightarrow> priceHistory (run s txs) symbol \<noteq> []"
  by (induction txs arbitrary: s) (simp_all add: run_Nil run_Cons apply_tx_history_stays)

lemma updatePriceData_history_nonempty:
  "updatePriceData e s symbol = Inr s' \<Longrightarrow> priceHistory s' symbol \<noteq> []"
  by (auto simp: updatePriceData_Inr priceHistory_inserted)

section \<open>The bounded history\<close>

text \<open>Evaluating a concrete run: the facts that unfold the transactions of a run.\<close>

lemmas run_eval =
  updates_def feed_env_def run_Cons run_Nil apply_tx_update deployed_def inserted_def
  MAX_HISTORY_LENGTH_def

text \<open>
  Claim C1. Whatever transactions are executed (updates of this or of other symbols,
  calls that abort, changes of the feed addresses), starting from a storage in which
  the symbol's history is empty, the symbol's history holds at most 24 samples after
  every prefix of the run.
\<close>

theorem history_length_bounded:
  assumes "priceHistory s symbol = []"
  shows "length (priceHistory (run s (take k txs)) symbol) \<le> MAX_HISTORY_LENGTH"
  using assms by (intro run_length) simp

theorem history_length_bounded_witness:
  "priceHistory (deployed 9 1 2) ''XRP'' = [] \<and>
   length (priceHistory (run (deployed 9 1 2)
      (take 30 (updates ''XRP'' (map of_nat [1..<40])))) ''XRP'') \<le> MAX_HISTORY_LENGTH \<and>
   length (priceHistory (run (deployed 9 1 2)
      (take 30 (updates ''XRP'' (map of_nat [1..<40])))) ''XRP'') = 24"
proof -
  have empty: "priceHistory (deployed 9 1 2) ''XRP'' = []"
    by (simp add: deployed_def)
  have full: "length (priceHistory (run (deployed 9 1 2)
      (take 30 (updates ''XRP'' (map of_nat [1..<40])))) ''XRP'') = 24"
    by (simp add: run_eval upt_rec)
  show ?thesis
    by (intro conjI empty full history_length_bounded [OF empty])
qed

text \<open>
  Claim C2. When the symbol's history holds 24 samples and the feed answers, the update
  returns, and the stored sequence is the old one without its first sample, followed by
  the new sample: the sample at index 0 is the old sample at index 1, the last one is
  the new sample, and the length stays 24. Inserting the prices 1 to 25 into a freshly
  deployed contract leaves the prices 2 to 25.
\<close>

theorem eviction_drops_oldest:
  "(\<forall>e s symbol p t ep.
      length (priceHistory s symbol) = MAX_HISTORY_LENGTH \<longrightarrow>
      status s = NOT_ENTERED \<longrightarrow>
      getCurrentPrice e (ftsoRegistry s) symbol = Some (p, t) \<longrightarrow>
      getCurrentEpochId e (ftsoManager s) = Some ep \<longrightarrow>
      (\<exists>s'. updatePriceData e s symbol = Inr s' \<and>
         priceHistory s' symbol =
           drop 1 (priceHistory s symbol) @ [\<lparr>price = p, timestamp = t, epochId = ep\<rparr>] \<and>
         priceHistory s' symbol ! 0 = priceHistory s symbol ! 1 \<and>
         last (priceHistory s' symbol) = \<lparr>price = p, timestamp = t, epochId = ep\<rparr> \<and>
         length (priceHistory s' symbol) = MAX_HISTORY_LENGTH)) \<and>
   map price (priceHistory (run (deployed 9 1 2)
      (updates ''XRP'' [1, 2, 3, 4, 5, 6, 7, 8, 9, 10, 11, 12, 13, 14, 15, 16, 17, 18, 19,
         20, 21, 22, 23, 24, 25])) ''XRP'') =
     [2, 3, 4, 5, 6, 7, 8, 9, 10, 11, 12, 13, 14, 15, 16, 17, 18, 19, 20, 21, 22, 23, 24, 25]"
proof (intro conjI allI impI)
  fix e :: env and s :: FlareFTSOPriceOracle and symbol p t ep
  assume len: "length (priceHistory s symbol) = MAX_HISTORY_LENGTH"
    and st: "status s = NOT_ENTERED"
    and quote: "getCurrentPrice e (ftsoRegistry s) symbol = Some (p, t)"
    and epoch: "getCurrentEpochId e (ftsoManager s) = Some ep"
  let ?new = "\<lparr>price = p, timestamp = t, epochId = ep\<rparr>"
  let ?s' = "inserted e s symbol p t ep"
  have ret: "updatePriceData e s symbol = Inr ?s'"
    using st quote epoch by (rule updatePriceData_returns)
  have hist: "priceHistory ?s' symbol = drop 1 (priceHistory s symbol) @ [?new]"
    using len by (simp add: priceHistory_inserted drop_Suc)
  have "1 < length (priceHistory s symbol)"
    using len by (simp add: MAX_HISTORY_LENGTH_def)
  then have first: "priceHistory ?s' symbol ! 0 = priceHistory s symbol ! 1"
    unfolding hist by (simp add: nth_append)
  have "last (priceHistory ?s' symbol) = ?new" "length (priceHistory ?s' symbol) = MAX_HISTORY_LENGTH"
    unfolding hist using len by (simp_all add: MAX_HISTORY_LENGTH_def)
  with ret hist first
  show "\<exists>s'. updatePriceData e s symbol = Inr s' \<and>
         priceHistory s' symbol = drop 1 (priceHistory s symbol) @ [?new] \<and>
         priceHistory s' symbol ! 0 = priceHistory s symbol ! 1 \<and>
         last (priceHistory s' symbol) = ?new \<and>
         length (priceHistory s' symbol) = MAX_HISTORY_LENGTH"
    by blast
next
  show "map price (priceHistory (run (deployed 9 1 2)
      (updates ''XRP'' [1, 2, 3, 4, 5, 6, 7, 8, 9, 10, 11, 12, 13, 14, 15, 16, 17, 18, 19,
         20, 21, 22, 23, 24, 25])) ''XRP'') =
     [2, 3, 4, 5, 6, 7, 8, 9, 10, 11, 12, 13, 14, 15, 16, 17, 18, 19, 20, 21, 22, 23, 24, 25]"
    by (simp add: run_eval)
qed

theorem eviction_drops_oldest_witness:
  "length (priceHistory (run (deployed 9 1 2)
      (updates ''XRP'' [1, 2, 3, 4, 5, 6, 7, 8, 9, 10, 11, 12, 13, 14, 15, 16, 17, 18, 19,
         20, 21, 22, 23, 24])) ''XRP'') = MAX_HISTORY_LENGTH \<and>
   status (run (deployed 9 1 2)
      (updates ''XRP'' [1, 2, 3, 4, 5, 6, 7, 8, 9, 10, 11, 12, 13, 14, 15, 16, 17, 18, 19,
         20, 21, 22, 23, 24])) = NOT_ENTERED \<and>
   (\<exists>s'. updatePriceData (feed_env 9 1700090000 25)
            (run (deployed 9 1 2)
              (updates ''XRP'' [1, 2, 3, 4, 5, 6, 7, 8, 9, 10, 11, 12, 13, 14, 15, 16, 17, 18,
                 19, 20, 21, 22, 23, 24])) ''XRP'' = Inr s' \<and>
          map price (priceHistory s' ''XRP'') =
            [2, 3, 4, 5, 6, 7, 8, 9, 10, 11, 12, 13, 14, 15, 16, 17, 18, 19, 20, 21, 22, 23,
             24, 25] \<and>
          priceHistory s' ''XRP'' ! 0 = \<lparr>price = 2, timestamp = 1700007200, epochId = 7\<rparr> \<and>
          last (priceHistory s' ''XRP'') = \<lparr>price = 25, timestamp = 1700090000, epochId = 7\<rparr>)"
proof -
  let ?s = "run (deployed 9 1 2)
      (updates ''XRP'' [1, 2, 3, 4, 5, 6, 7, 8, 9, 10, 11, 12, 13, 14, 15, 16, 17, 18, 19,
         20, 21, 22, 23, 24])"
  let ?e = "feed_env 9 1700090000 25"
  have prices: "map price (priceHistory ?s ''XRP'') =
      [1, 2, 3, 4, 5, 6, 7, 8, 9, 10, 11, 12, 13, 14, 15, 16, 17, 18, 19, 20, 21, 22, 23, 24]"
    by (simp add: run_eval)
  have second: "priceHistory ?s ''XRP'' ! 1 = \<lparr>price = 2, timestamp = 1700007200, epochId = 7\<rparr>"
    by (simp add: run_eval)
  have len: "length (priceHistory ?s ''XRP'') = MAX_HISTORY_LENGTH"
    by (simp add: run_eval)
  have st: "status ?s = NOT_ENTERED"
    by (simp add: run_eval)
  have quote: "getCurrentPrice ?e (ftsoRegistry ?s) ''XRP'' = Some (25, 1700090000)"
    by (simp add: feed_env_def)
  have epoch: "getCurrentEpochId ?e (ftsoManager ?s) = Some 7"
    by (simp add: feed_env_def)
  from eviction_drops_oldest [THEN conjunct1, rule_format, OF len st quote epoch]
  obtain s' where s': "updatePriceData ?e ?s ''XRP'' = Inr s'"
    "priceHistory s' ''XRP'' = drop 1 (priceHistory ?s ''XRP'') @
       [\<lparr>price = 25, timestamp = 1700090000, epochId = 7\<rparr>]"
    "priceHistory s' ''XRP'' ! 0 = priceHistory ?s ''XRP'' ! 1"
    "last (priceHistory s' ''XRP'') = \<lparr>price = 25, timestamp = 1700090000, epochId = 7\<rparr>"
    by blast
  have "map price (priceHistory s' ''XRP'') =
      [2, 3, 4, 5, 6, 7, 8, 9, 10, 11, 12, 13, 14, 15, 16, 17, 18, 19, 20, 21, 22, 23, 24, 25]"
    unfolding s'(2) by (simp add: drop_map [symmetric] prices)
  with s' second len st show ?thesis by auto
qed

text \<open>
  Claim C10. An update of one symbol leaves the history and the last-update time of
  every other symbol as they were.
\<close>

theorem update_touches_only_its_symbol:
  assumes "symbol' \<noteq> symbol"
    and "updatePriceData e s symbol = Inr s'"
  shows "priceHistory s' symbol' = priceHistory s symbol' \<and>
         lastUpdateTime s' symbol' = lastUpdateTime s symbol'"
  using assms by (auto simp: updatePriceData_Inr priceHistory_inserted lastUpdateTime_inserted)

theorem update_touches_only_its_symbol_witness:
  "''BTC'' \<noteq> ''XRP'' \<and>
   updatePriceData (feed_env 9 1700007200 2) (run (deployed 9 1 2) (updates ''BTC'' [50000])) ''XRP''
     = Inr (inserted (feed_env 9 1700007200 2) (run (deployed 9 1 2) (updates ''BTC'' [50000]))
              ''XRP'' 2 1700007200 7) \<and>
   priceHistory (inserted (feed_env 9 1700007200 2) (run (deployed 9 1 2) (updates ''BTC'' [50000]))
              ''XRP'' 2 1700007200 7) ''BTC''
     = priceHistory (run (deployed 9 1 2) (updates ''BTC'' [50000])) ''BTC'' \<and>
   lastUpdateTime (inserted (feed_env 9 1700007200 2) (run (deployed 9 1 2) (updates ''BTC'' [50000]))
              ''XRP'' 2 1700007200 7) ''BTC''
     = lastUpdateTime (run (deployed 9 1 2) (updates ''BTC'' [50000])) ''BTC'' \<and>
   map price (priceHistory (run (deployed 9 1 2) (updates ''BTC'' [50000])) ''BTC'') = [50000] \<and>
   lastUpdateTime (run (deployed 9 1 2) (updates ''BTC'' [50000])) ''BTC'' = 1880000000"
proof -
  let ?s = "run (deployed 9 1 2) (updates ''BTC'' [50000])"
  let ?e = "feed_env 9 1700007200 2"
  have ne: "''BTC'' \<noteq> ''XRP''" by simp
  have ret: "updatePriceData ?e ?s ''XRP'' = Inr (inserted ?e ?s ''XRP'' 2 1700007200 7)"
    by (rule updatePriceData_returns) (simp_all add: run_eval)
  have before: "map price (priceHistory ?s ''BTC'') = [50000]"
    "lastUpdateTime ?s ''BTC'' = 1880000000"
    by (simp_all add: run_eval)
  from update_touches_only_its_symbol [OF ne ret] ne ret before
  show ?thesis by simp
qed


section \<open>Reading the history\<close>

text \<open>
  Claim C9. Reading the history never fails: it returns the prices, timestamps and
  epoch ids of the stored samples in their stored order, oldest first; for a symbol
  with no samples, and so for every symbol of a freshly deployed contract, the three
  sequences are empty.
\<close>

theorem history_read_never_fails:
  "getPriceHistory s symbol =
     Inr (map price (priceHistory s symbol), map timestamp (priceHistory s symbol),
          map epochId (priceHistory s symbol)) \<and>
   (priceHistory s symbol = [] \<longrightarrow> getPriceHistory s symbol = Inr ([], [], [])) \<and>
   getPriceHistory (deployed deployer registry manager) symbol = Inr ([], [], [])"
  by (simp add: getPriceHistory_eq deployed_def)

theorem history_read_never_fails_witness:
  "priceHistory (deployed 9 1 2) ''XRP'' = [] \<and>
   getPriceHistory (deployed 9 1 2) ''XRP'' = Inr ([], [], []) \<and>
   getPriceHistory (run (deployed 9 1 2) (updates ''XRP'' [100, 110, 90])) ''XRP'' =
     Inr ([100, 110, 90], [1700360000, 1700396000, 1700324000], [7, 7, 7])"
proof -
  let ?s = "run (deployed 9 1 2) (updates ''XRP'' [100, 110, 90])"
  have empty: "priceHistory (deployed 9 1 2) ''XRP'' = []" by (simp add: deployed_def)
  have hist: "priceHistory ?s ''XRP'' =
     [\<lparr>price = 100, timestamp = 1700360000, epochId = 7\<rparr>,
      \<lparr>price = 110, timestamp = 1700396000, epochId = 7\<rparr>,
      \<lparr>price = 90, timestamp = 1700324000, epochId = 7\<rparr>]"
    by (simp add: run_eval)
  note a = history_read_never_fails [where s = "deployed 9 1 2" and symbol = "''XRP''",
      THEN conjunct2, THEN conjunct1, rule_format, OF empty]
  note b = history_read_never_fails [where s = ?s and symbol = "''XRP''", THEN conjunct1]
  show ?thesis using a b empty hist by simp
qed

text \<open>
  Claim C7. Reading the latest sample fails with NotFound when the symbol has no
  samples, in particular for every symbol of a freshly deployed contract, and returns
  the price, timestamp and epoch id of the last stored sample otherwise.
\<close>

theorem latest_is_newest_or_not_found:
  "(priceHistory s symbol = [] \<longrightarrow> getLatestPriceData s symbol = Inl NotFound) \<and>
   (priceHistory s symbol \<noteq> [] \<longrightarrow>
      getLatestPriceData s symbol =
        Inr (price (last (priceHistory s symbol)), timestamp (last (priceHistory s symbol)),
             epochId (last (priceHistory s symbol)))) \<and>
   getLatestPriceData (deployed deployer registry manager) symbol = Inl NotFound"
  by (simp add: getLatestPriceData_eq deployed_def)

theorem latest_is_newest_or_not_found_witness:
  "priceHistory (deployed 9 1 2) ''XRP'' = [] \<and>
   getLatestPriceData (deployed 9 1 2) ''XRP'' = Inl NotFound \<and>
   priceHistory (run (deployed 9 1 2) (updates ''XRP'' [100, 110])) ''XRP'' =
     [\<lparr>price = 100, timestamp = 1700360000, epochId = 7\<rparr>,
      \<lparr>price = 110, timestamp = 1700396000, epochId = 7\<rparr>] \<and>
   getLatestPriceData (run (deployed 9 1 2) (updates ''XRP'' [100, 110])) ''XRP'' =
     Inr (110, 1700396000, 7)"
proof -
  let ?s = "run (deployed 9 1 2) (updates ''XRP'' [100, 110])"
  have empty: "priceHistory (deployed 9 1 2) ''XRP'' = []" by (simp add: deployed_def)
  have hist: "priceHistory ?s ''XRP'' =
     [\<lparr>price = 100, timestamp = 1700360000, epochId = 7\<rparr>,
      \<lparr>price = 110, timestamp = 1700396000, epochId = 7\<rparr>]"
    by (simp add: run_eval)
  have ne: "priceHistory ?s ''XRP'' \<noteq> []" using hist by simp
  note a = latest_is_newest_or_not_found [where s = "deployed 9 1 2" and symbol = "''XRP''",
      THEN conjunct1, rule_format, OF empty]
  note b = latest_is_newest_or_not_found [where s = ?s and symbol = "''XRP''",
      THEN conjunct2, THEN conjunct1, rule_format, OF ne]
  show ?thesis using a b empty hist by simp
qed


section \<open>The price change\<close>

text \<open>
  What \<open>get24hPriceChange\<close> returns from a history of at least two samples with a
  nonzero oldest price: the change in basis points when the scaled product fits 256
  bits and the ratio is at least 10000, and an arithmetic panic when the ratio is
  below 10000, that is, whenever the price went down.
\<close>

lemma get24hPriceChange_increase:
  assumes "1 < length (priceHistory s symbol)"
    and "price (hd (priceHistory s symbol)) \<noteq> 0"
    and "unat (price (last (priceHistory s symbol))) * 10000 < 2 ^ 256"
    and "10000 \<le> price (last (priceHistory s symbol)) * 10000 div price (hd (priceHistory s symbol))"
  shows "get24hPriceChange s symbol =
           Inr (price (last (priceHistory s symbol)) * 10000 div price (hd (priceHistory s symbol))
                - 10000)"
  using assms by (simp add: get24hPriceChange_eq Let_def)

lemma get24hPriceChange_decrease:
  assumes "1 < length (priceHistory s symbol)"
    and "price (hd (priceHistory s symbol)) \<noteq> 0"
    and "price (last (priceHistory s symbol)) * 10000 div price (hd (priceHistory s symbol)) < 10000"
  shows "get24hPriceChange s symbol = Inl (Panic 0x11)"
  using assms by (simp add: get24hPriceChange_eq Let_def)

text \<open>
  Claim C3. For the oldest price 100 and the newest price 110 the function returns
  1000. For the oldest price 100 and the newest price 90 the claim's value is -1000,
  but the function aborts: the subtraction \<open>9000 - 10000\<close> is done on \<open>uint256\<close>,
  before the conversion to \<open>int256\<close>, and underflows.
\<close>

theorem price_change_aborts_on_decrease:
  "map price (priceHistory (run (deployed 9 1 2) (updates ''XRP'' [100, 110])) ''XRP'') = [100, 110] \<and>
   get24hPriceChange (run (deployed 9 1 2) (updates ''XRP'' [100, 110])) ''XRP'' = Inr 1000 \<and>
   map price (priceHistory (run (deployed 9 1 2) (updates ''XRP'' [100, 90])) ''XRP'') = [100, 90] \<and>
   get24hPriceChange (run (deployed 9 1 2) (updates ''XRP'' [100, 90])) ''XRP'' = Inl (Panic 0x11)"
  by (simp add: run_eval get24hPriceChange_eq)

text \<open>
  Claim C4. With at least two samples and an oldest price of 0, the function returns 0;
  it does not divide.
\<close>

theorem zero_oldest_price_gives_zero:
  assumes "2 \<le> length (priceHistory s symbol)"
    and "price (priceHistory s symbol ! 0) = 0"
  shows "get24hPriceChange s symbol = Inr 0"
proof -
  have "priceHistory s symbol \<noteq> []" using assms(1) by auto
  then have "price (hd (priceHistory s symbol)) = 0"
    using assms(2) by (simp add: hd_conv_nth)
  then show ?thesis using assms(1) by (simp add: get24hPriceChange_eq Let_def)
qed

theorem zero_oldest_price_gives_zero_witness:
  "2 \<le> length (priceHistory (run (deployed 9 1 2) (updates ''XRP'' [0, 110, 120])) ''XRP'') \<and>
   price (priceHistory (run (deployed 9 1 2) (updates ''XRP'' [0, 110, 120])) ''XRP'' ! 0) = 0 \<and>
   get24hPriceChange (run (deployed 9 1 2) (updates ''XRP'' [0, 110, 120])) ''XRP'' = Inr 0"
proof -
  let ?s = "run (deployed 9 1 2) (updates ''XRP'' [0, 110, 120])"
  have len: "2 \<le> length (priceHistory ?s ''XRP'')" by (simp add: run_eval)
  have zero: "price (priceHistory ?s ''XRP'' ! 0) = 0" by (simp add: run_eval)
  show ?thesis
    by (intro conjI len zero zero_oldest_price_gives_zero [OF len zero])
qed

text \<open>
  Claim C8. With fewer than two samples (none, or exactly one) the function fails with
  InsufficientHistory.
\<close>

theorem short_history_is_insufficient:
  assumes "length (priceHistory s symbol) < 2"
  shows "get24hPriceChange s symbol = Inl InsufficientHistory"
  using assms by (simp add: get24hPriceChange_eq Let_def)

theorem short_history_is_insufficient_witness:
  "length (priceHistory (deployed 9 1 2) ''XRP'') = 0 \<and>
   get24hPriceChange (deployed 9 1 2) ''XRP'' = Inl InsufficientHistory \<and>
   length (priceHistory (run (deployed 9 1 2) (updates ''XRP'' [100])) ''XRP'') = 1 \<and>
   get24hPriceChange (run (deployed 9 1 2) (updates ''XRP'' [100])) ''XRP'' = Inl InsufficientHistory"
proof -
  let ?s = "run (deployed 9 1 2) (updates ''XRP'' [100])"
  have none: "length (priceHistory (deployed 9 1 2) ''XRP'') = 0" by (simp add: deployed_def)
  have one: "length (priceHistory ?s ''XRP'') = 1" by (simp add: run_eval)
  have "length (priceHistory (deployed 9 1 2) ''XRP'') < 2" using none by simp
  moreover have "length (priceHistory ?s ''XRP'') < 2" using one by simp
  ultimately show ?thesis
    using none one by (intro conjI short_history_is_insufficient)
qed


section \<open>Staleness\<close>

text \<open>
  Claim C5. \<open>needsUpdate\<close> returns true exactly when the block's time minus the symbol's
  last update time, as integers, is at least 3600 seconds, and it returns a value
  whenever the block's time is not before the last update. Before any insert for the
  symbol, that is, as long as the symbol's history is still empty after whatever
  transactions ran since deployment (updates of other symbols, attempts for this symbol
  that aborted, changes of the feed addresses), the last update time is 0 and
  \<open>needsUpdate\<close> returns true at every block time of at least 3600, which every time
  of the chain's clock is. After a successful update at some time it returns false at
  that same time, and true at every time at least 3600 seconds later.
\<close>

theorem needsUpdate_after_one_hour:
  "(needsUpdate e s symbol = Inr True \<longleftrightarrow>
      3600 \<le> uint (block_timestamp e) - uint (lastUpdateTime s symbol)) \<and>
   (lastUpdateTime s symbol \<le> block_timestamp e \<longrightarrow>
      needsUpdate e s symbol =
        Inr (3600 \<le> uint (block_timestamp e) - uint (lastUpdateTime s symbol))) \<and>
   (priceHistory (run (deployed deployer registry manager) txs) symbol = [] \<longrightarrow>
      lastUpdateTime (run (deployed deployer registry manager) txs) symbol = 0 \<and>
      (3600 \<le> block_timestamp e \<longrightarrow>
         needsUpdate e (run (deployed deployer registry manager) txs) symbol = Inr True)) \<and>
   (updatePriceData e s symbol = Inr s' \<longrightarrow>
      lastUpdateTime s' symbol = block_timestamp e \<and>
      needsUpdate e s' symbol = Inr False \<and>
      (\<forall>e'. 3600 \<le> uint (block_timestamp e') - uint (block_timestamp e) \<longrightarrow>
         needsUpdate e' s' symbol = Inr True))"
proof (intro conjI impI)
  show "needsUpdate e s symbol = Inr True \<longleftrightarrow>
      3600 \<le> uint (block_timestamp e) - uint (lastUpdateTime s symbol)"
    by (rule needsUpdate_true_iff)
next
  assume "lastUpdateTime s symbol \<le> block_timestamp e"
  then show "needsUpdate e s symbol =
        Inr (3600 \<le> uint (block_timestamp e) - uint (lastUpdateTime s symbol))"
    by (simp add: needsUpdate_eq)
next
  assume empty: "priceHistory (run (deployed deployer registry manager) txs) symbol = []"
  have "priceHistory (deployed deployer registry manager) symbol = [] \<longrightarrow>
      lastUpdateTime (deployed deployer registry manager) symbol = 0"
    by (simp add: deployed_def)
  then have "priceHistory (run (deployed deployer registry manager) txs) symbol = [] \<longrightarrow>
      lastUpdateTime (run (deployed deployer registry manager) txs) symbol = 0"
    by (rule run_never_inserted)
  then show zero: "lastUpdateTime (run (deployed deployer registry manager) txs) symbol = 0"
    using empty by simp
  assume "3600 \<le> block_timestamp e"
  then show "needsUpdate e (run (deployed deployer registry manager) txs) symbol = Inr True"
    using zero by (simp add: needsUpdate_eq word_le_def)
next
  assume "updatePriceData e s symbol = Inr s'"
  then show last: "lastUpdateTime s' symbol = block_timestamp e"
    by (auto simp: updatePriceData_Inr lastUpdateTime_inserted)
  then show "needsUpdate e s' symbol = Inr False"
    by (simp add: needsUpdate_eq)
  show "\<forall>e'. 3600 \<le> uint (block_timestamp e') - uint (block_timestamp e) \<longrightarrow>
         needsUpdate e' s' symbol = Inr True"
    using last by (simp add: needsUpdate_true_iff)
qed

theorem needsUpdate_after_one_hour_witness:
  "priceHistory (run (deployed 9 1 2)
     (updates ''BTC'' [5] @
      [(\<lparr>msg_sender = 9, block_timestamp = 1700020000,
         getCurrentPrice = (\<lambda>registry symbol. None),
         getCurrentEpochId = (\<lambda>manager. Some 7)\<rparr>, UpdatePriceData ''XRP'')])) ''XRP'' = [] \<and>
   3600 \<le> block_timestamp (feed_env 9 1700021600 1) \<and>
   needsUpdate (feed_env 9 1700021600 1)
     (run (deployed 9 1 2)
       (updates ''BTC'' [5] @
        [(\<lparr>msg_sender = 9, block_timestamp = 1700020000,
           getCurrentPrice = (\<lambda>registry symbol. None),
           getCurrentEpochId = (\<lambda>manager. Some 7)\<rparr>, UpdatePriceData ''XRP'')])) ''XRP''
     = Inr True \<and>
   updatePriceData (feed_env 9 1700021600 1) (run (deployed 9 1 2) (updates ''BTC'' [5])) ''XRP''
     = Inr (run (deployed 9 1 2)
              (updates ''BTC'' [5] @ [(feed_env 9 1700021600 1, UpdatePriceData ''XRP'')])) \<and>
   needsUpdate (feed_env 9 1700021600 1)
     (run (deployed 9 1 2)
        (updates ''BTC'' [5] @ [(feed_env 9 1700021600 1, UpdatePriceData ''XRP'')])) ''XRP''
     = Inr False \<and>
   needsUpdate (feed_env 9 1700025199 1)
     (run (deployed 9 1 2)
        (updates ''BTC'' [5] @ [(feed_env 9 1700021600 1, UpdatePriceData ''XRP'')])) ''XRP''
     = Inr False \<and>
   needsUpdate (feed_env 9 1700025200 1)
     (run (deployed 9 1 2)
        (updates ''BTC'' [5] @ [(feed_env 9 1700021600 1, UpdatePriceData ''XRP'')])) ''XRP''
     = Inr True"
proof -
  let ?down = "\<lparr>msg_sender = 9, block_timestamp = 1700020000,
         getCurrentPrice = (\<lambda>registry symbol. None),
         getCurrentEpochId = (\<lambda>manager. Some 7)\<rparr> :: env"
  let ?attempted = "updates ''BTC'' [5] @ [(?down, UpdatePriceData ''XRP'')]"
  let ?s = "run (deployed 9 1 2) (updates ''BTC'' [5])"
  let ?e = "feed_env 9 1700021600 1"
  let ?s' = "run (deployed 9 1 2) (updates ''BTC'' [5] @ [(?e, UpdatePriceData ''XRP'')])"
  have empty: "priceHistory (run (deployed 9 1 2) ?attempted) ''XRP'' = []"
    by (simp add: run_eval)
  have late: "3600 \<le> block_timestamp ?e"
    by (simp add: feed_env_def)
  have ret: "updatePriceData ?e ?s ''XRP'' = Inr ?s'"
    by (simp add: updatePriceData_Inr run_eval)
  have before: "needsUpdate ?e (run (deployed 9 1 2) ?attempted) ''XRP'' = Inr True"
    using needsUpdate_after_one_hour [where e = ?e and symbol = "''XRP''" and txs = ?attempted
        and deployer = 9 and registry = 1 and manager = 2,
        THEN conjunct2, THEN conjunct2, THEN conjunct1, THEN mp, OF empty,
        THEN conjunct2, THEN mp, OF late] .
  note after = needsUpdate_after_one_hour [where e = ?e and s = ?s and symbol = "''XRP''"
      and s' = ?s', THEN conjunct2, THEN conjunct2, THEN conjunct2, rule_format, OF ret]
  have now: "needsUpdate ?e ?s' ''XRP'' = Inr False"
    using after by simp
  have later: "needsUpdate (feed_env 9 1700025200 1) ?s' ''XRP'' = Inr True"
    using after [THEN conjunct2, THEN conjunct2, rule_format, of "feed_env 9 1700025200 1"]
    by (simp add: feed_env_def)
  have early: "needsUpdate (feed_env 9 1700025199 1) ?s' ''XRP'' = Inr False"
    by (simp add: needsUpdate_eq run_eval)
  show ?thesis using empty late before ret now early later by simp
qed


section \<open>The feed addresses\<close>

text \<open>
  Claim C6. \<open>updateFtsoRegistry\<close> and \<open>updateFtsoManager\<close>: a caller who is not the owner
  fails with Unauthorized, whatever the new address, and the storage stays as it was;
  the owner fails with InvalidReference for the zero address; the owner with a nonzero
  address succeeds and the address is stored; and these are the only calls that
  succeed.
\<close>

theorem feed_addresses_owner_only:
  "(owner s \<noteq> msg_sender e \<longrightarrow>
      updateFtsoRegistry e s a = Inl Unauthorized \<and>
      updateFtsoManager e s a = Inl Unauthorized \<and>
      apply_tx s (e, UpdateFtsoRegistry a) = s \<and>
      apply_tx s (e, UpdateFtsoManager a) = s) \<and>
   (owner s = msg_sender e \<longrightarrow> a = 0 \<longrightarrow>
      updateFtsoRegistry e s a = Inl InvalidReference \<and>
      updateFtsoManager e s a = Inl InvalidReference \<and>
      apply_tx s (e, UpdateFtsoRegistry a) = s \<and>
      apply_tx s (e, UpdateFtsoManager a) = s) \<and>
   (owner s = msg_sender e \<longrightarrow> a \<noteq> 0 \<longrightarrow>
      updateFtsoRegistry e s a = Inr (s\<lparr>ftsoRegistry := a\<rparr>) \<and>
      updateFtsoManager e s a = Inr (s\<lparr>ftsoManager := a\<rparr>)) \<and>
   ((\<exists>s'. updateFtsoRegistry e s a = Inr s') \<longleftrightarrow> owner s = msg_sender e \<and> a \<noteq> 0) \<and>
   ((\<exists>s'. updateFtsoManager e s a = Inr s') \<longleftrightarrow> owner s = msg_sender e \<and> a \<noteq> 0)"
  by (simp add: updateFtsoRegistry_def updateFtsoManager_def onlyOwner_def Unauthorized_def
      InvalidReference_def apply_tx_registry apply_tx_manager)

theorem feed_addresses_owner_only_witness:
  "owner (deployed 9 1 2) \<noteq> msg_sender (feed_env 8 1700000000 1) \<and>
   updateFtsoRegistry (feed_env 8 1700000000 1) (deployed 9 1 2) 5 = Inl Unauthorized \<and>
   updateFtsoManager (feed_env 8 1700000000 1) (deployed 9 1 2) 5 = Inl Unauthorized \<and>
   ftsoRegistry (apply_tx (deployed 9 1 2) (feed_env 8 1700000000 1, UpdateFtsoRegistry 5)) = 1 \<and>
   ftsoManager (apply_tx (deployed 9 1 2) (feed_env 8 1700000000 1, UpdateFtsoManager 5)) = 2 \<and>
   owner (deployed 9 1 2) = msg_sender (feed_env 9 1700000000 1) \<and>
   updateFtsoRegistry (feed_env 9 1700000000 1) (deployed 9 1 2) 0 = Inl InvalidReference \<and>
   updateFtsoManager (feed_env 9 1700000000 1) (deployed 9 1 2) 0 = Inl InvalidReference \<and>
   updateFtsoRegistry (feed_env 9 1700000000 1) (deployed 9 1 2) 5 = Inr (deployed 9 5 2) \<and>
   updateFtsoManager (feed_env 9 1700000000 1) (deployed 9 1 2) 5 = Inr (deployed 9 1 5)"
proof -
  let ?s = "deployed 9 1 2"
  let ?other = "feed_env 8 1700000000 1"
  let ?own = "feed_env 9 1700000000 1"
  have stranger: "owner ?s \<noteq> msg_sender ?other" by (simp add: deployed_def feed_env_def)
  have is_owner: "owner ?s = msg_sender ?own" by (simp add: deployed_def feed_env_def)
  have null: "(0 :: address) = 0" and valid: "(5 :: address) \<noteq> 0" by simp_all
  note refused = feed_addresses_owner_only [where s = ?s and e = ?other and a = 5,
      THEN conjunct1, rule_format, OF stranger]
  note invalid = feed_addresses_owner_only [where s = ?s and e = ?own and a = 0,
      THEN conjunct2, THEN conjunct1, rule_format, OF is_owner null]
  note accepted = feed_addresses_owner_only [where s = ?s and e = ?own and a = 5,
      THEN conjunct2, THEN conjunct2, THEN conjunct1, rule_format, OF is_owner valid]
  have "ftsoRegistry ?s = 1" "ftsoManager ?s = 2"
    "?s\<lparr>ftsoRegistry := 5\<rparr> = deployed 9 5 2" "?s\<lparr>ftsoManager := 5\<rparr> = deployed 9 1 5"
    by (simp_all add: deployed_def)
  then show ?thesis using stranger is_owner refused invalid accepted by simp
qed

end
